theory Spec2Isabelle
  imports Complex_Main
begin

section \<open>Scene graph: prims, transform ops, attributes\<close>

text \<open>
  Both scripts drive a USD stage. The stage is modelled as a finite map from prim paths to
  prims; \<open>stage p = None\<close> is a prim for which \<open>IsValid()\<close> is false. A prim carries its
  ordered transform ops (\<open>GetOrderedXformOps()\<close>) and its attributes. Python floats and
  \<open>Gf.Vec3d\<close> components are modelled as real numbers.
\<close>

type_synonym path = string

datatype vec3 = Vec3 (vx: real) (vy: real) (vz: real)

datatype op_type = TypeTranslate | TypeRotateXYZ | TypeScale | TypeOrient | TypeTransform

record xform_op =
  op_type :: op_type
  op_value :: "vec3 option"

datatype attr_value =
    FloatVal real
  | TokenVal string
  | Vec2fVal real real
  | PointsVal "(real \<times> real \<times> real) list"
  | IntsVal "int list"
  | FloatsVal "real list"

record prim =
  prim_type :: string
  xform_ops :: "xform_op list"
  attrs :: "string \<rightharpoonup> attr_value"

type_synonym stage = "path \<rightharpoonup> prim"

text \<open>\<open>schema.Define(stage, path)\<close> and \<open>stage.DefinePrim(path, type)\<close>.\<close>

definition Define :: "path \<Rightarrow> string \<Rightarrow> stage \<Rightarrow> stage" where
  "Define p ty s =
     (case s p of
        None \<Rightarrow> s(p \<mapsto> \<lparr>prim_type = ty, xform_ops = [], attrs = Map.empty\<rparr>)
      | Some pr \<Rightarrow> s(p \<mapsto> pr\<lparr>prim_type := ty\<rparr>))"

text \<open>\<open>x.AddTranslateOp().Set(v)\<close> and \<open>x.AddRotateXYZOp().Set(v)\<close>: a new op at the end
  of the prim's op order, holding \<open>v\<close>.\<close>

definition AddXformOp :: "path \<Rightarrow> op_type \<Rightarrow> vec3 \<Rightarrow> stage \<Rightarrow> stage" where
  "AddXformOp p ty v s =
     (case s p of
        None \<Rightarrow> s
      | Some pr \<Rightarrow>
          s(p \<mapsto> pr\<lparr>xform_ops := xform_ops pr @ [\<lparr>op_type = ty, op_value = Some v\<rparr>]\<rparr>))"

text \<open>\<open>GetXAttr().Set(v)\<close>, \<open>CreateXAttr(v)\<close> and \<open>CreateAttribute(name, type).Set(v)\<close>.\<close>

definition SetAttr :: "path \<Rightarrow> string \<Rightarrow> attr_value \<Rightarrow> stage \<Rightarrow> stage" where
  "SetAttr p name v s =
     (case s p of
        None \<Rightarrow> s
      | Some pr \<Rightarrow> s(p \<mapsto> pr\<lparr>attrs := (attrs pr)(name \<mapsto> v)\<rparr>))"

definition get_attr :: "stage \<Rightarrow> path \<Rightarrow> string \<Rightarrow> attr_value option" where
  "get_attr s p name = (case s p of None \<Rightarrow> None | Some pr \<Rightarrow> attrs pr name)"

text \<open>The search loop of \<open>setup_stereo_baseline\<close> (capture script, lines 52-56 and 60-64):
  the position of the first op of type translate in the op order, if there is one.\<close>

fun find_translate :: "xform_op list \<Rightarrow> nat option" where
  "find_translate [] = None"
| "find_translate (op # ops) =
     (if op_type op = TypeTranslate then Some 0
      else map_option Suc (find_translate ops))"

text \<open>What the capture script reads back as a camera's local position
  (\<open>left_op.Get()\<close>, line 81): the value of the prim's first translate op.\<close>

definition local_pos :: "stage \<Rightarrow> path \<Rightarrow> vec3 option" where
  "local_pos s p =
     (case s p of
        None \<Rightarrow> None
      | Some pr \<Rightarrow>
          (case find_translate (xform_ops pr) of
             None \<Rightarrow> None
           | Some i \<Rightarrow> op_value (xform_ops pr ! i)))"

section \<open>Scene builder (setup\_pantograph\_scene.py)\<close>

definition BASELINE_M :: real where "BASELINE_M = 0.12"
definition CAMERA_DISTANCE_M :: real where "CAMERA_DISTANCE_M = 1.5"
definition IMAGE_WIDTH :: real where "IMAGE_WIDTH = 1920"
definition IMAGE_HEIGHT :: real where "IMAGE_HEIGHT = 1080"
definition HFOV_DEG :: real where "HFOV_DEG = 90"

definition left_path :: path where "left_path = ''/World/StereoCameraRig/LeftCamera''"
definition right_path :: path where "right_path = ''/World/StereoCameraRig/RightCamera''"
definition rig_path :: path where "rig_path = ''/World/StereoCameraRig''"
definition pantograph_path :: path where "pantograph_path = ''/World/Pantograph''"
definition ground_path :: path where "ground_path = ''/World/Ground''"
definition wire_path :: path where "wire_path = ''/World/CatenaryWire''"

text \<open>\<open>np.radians\<close>.\<close>

definition radians :: "real \<Rightarrow> real" where
  "radians deg = deg * pi / 180"

text \<open>Lines 52-53: the focal length computed from the field of view, in millimetres
  (0.0036 mm per pixel is the 3.6e-6 m pixel pitch).\<close>

definition focal_length_mm :: real where
  "focal_length_mm = (IMAGE_WIDTH / 2) / tan (radians (HFOV_DEG / 2)) * 0.0036"

text \<open>Lines 87-91: the catenary samples.\<close>

definition wire_point :: "nat \<Rightarrow> real \<times> real \<times> real" where
  "wire_point i =
     (let x = real_of_int (int i - 10) * 0.3;
          z = 1.8 + 0.02 * x\<^sup>2
      in (x, 0, z))"

definition wire_points :: "(real \<times> real \<times> real) list" where
  "wire_points = map wire_point [0..<21]"

text \<open>A script as the list of its calls on the stage, run first to last.\<close>

fun run_calls :: "(stage \<Rightarrow> stage) list \<Rightarrow> stage \<Rightarrow> stage" where
  "run_calls [] s = s"
| "run_calls (call # calls) s = run_calls calls (call s)"

text \<open>Lines 34-98, in source order, on the new (empty) stage. The reference to the
  converted model (line 40) adds no transform op and no attribute and is left out.\<close>

definition build_scene :: stage where
  "build_scene =
     run_calls
       [Define pantograph_path ''Xform'',
        AddXformOp pantograph_path TypeRotateXYZ (Vec3 90 0 0),
        AddXformOp pantograph_path TypeTranslate (Vec3 0 0 1.5),
        Define rig_path ''Xform'',
        AddXformOp rig_path TypeTranslate (Vec3 0 (- CAMERA_DISTANCE_M) 1.5),
        AddXformOp rig_path TypeRotateXYZ (Vec3 90 0 0),
        Define left_path ''Camera'',
        AddXformOp left_path TypeTranslate (Vec3 (- BASELINE_M / 2) 0 0),
        SetAttr left_path ''horizontalAperture'' (FloatVal 6.912),
        SetAttr left_path ''verticalAperture'' (FloatVal 3.888),
        SetAttr left_path ''focalLength'' (FloatVal 3.5),
        SetAttr left_path ''clippingRange'' (Vec2fVal 0.1 100),
        Define right_path ''Camera'',
        AddXformOp right_path TypeTranslate (Vec3 (BASELINE_M / 2) 0 0),
        SetAttr right_path ''horizontalAperture'' (FloatVal 6.912),
        SetAttr right_path ''verticalAperture'' (FloatVal 3.888),
        SetAttr right_path ''focalLength'' (FloatVal 3.5),
        SetAttr right_path ''clippingRange'' (Vec2fVal 0.1 100),
        Define ground_path ''Mesh'',
        SetAttr ground_path ''points''
          (PointsVal [(-10, -10, 0), (10, -10, 0), (10, 10, 0), (-10, 10, 0)]),
        SetAttr ground_path ''faceVertexCounts'' (IntsVal [4]),
        SetAttr ground_path ''faceVertexIndices'' (IntsVal [0, 1, 2, 3]),
        SetAttr ground_path ''normals'' (PointsVal [(0, 0, 1)]),
        Define ''/World/DomeLight'' ''Xform'',
        Define ''/World/DomeLight/Dome'' ''DomeLight'',
        SetAttr ''/World/DomeLight/Dome'' ''inputs:intensity'' (FloatVal 1000),
        Define wire_path ''BasisCurves'',
        SetAttr wire_path ''points'' (PointsVal wire_points),
        SetAttr wire_path ''curveVertexCounts'' (IntsVal [21]),
        SetAttr wire_path ''type'' (TokenVal ''cubic''),
        SetAttr wire_path ''basis'' (TokenVal ''bspline''),
        SetAttr wire_path ''widths'' (FloatsVal (replicate 21 0.012))]
       Map.empty"

text \<open>Lines 107-109: the focal length in pixels and the disparities printed for the
  stereo matcher. \<open>disparity_px\<close> is the expression of lines 108 and 109 with the distance
  as its parameter; Python's float division raises on a zero divisor.\<close>

datatype error = RuntimeError string | ZeroDivisionError

definition fx_px :: real where
  "fx_px = 3.5 / (6.912 / IMAGE_WIDTH)"

definition disparity_px :: "real \<Rightarrow> real \<Rightarrow> real \<Rightarrow> error + real" where
  "disparity_px fx baseline_m distance_m =
     (if distance_m = 0 then Inl ZeroDivisionError
      else Inr ((fx * baseline_m) / distance_m))"

definition d_near :: "error + real" where
  "d_near = disparity_px fx_px BASELINE_M 1.0"

definition d_far :: "error + real" where
  "d_far = disparity_px fx_px BASELINE_M 2.0"

section \<open>Capture configurator (capture\_pantograph\_data.py)\<close>

definition NUM_FRAMES :: nat where "NUM_FRAMES = 30"

text \<open>The lines the script prints. The rig scale and the pantograph world position are
  computed by the SDK's transform composition; their values are not modelled.\<close>

datatype message =
    Warning_no_cameras
  | Set_stereo_baseline_mm real
  | Rig_scale
  | Left_local_pos "vec3 option"
  | Right_local_pos "vec3 option"
  | Pantograph_world_pos
  | Frame0_camera_world_pos vec3 vec3
  | Frame0_baseline_mm real
  | Wrote_outputs

text \<open>Lines 21-25: \<open>get_stage()\<close> gives \<open>None\<close> when the scene did not load.\<close>

definition open_stage :: "stage option \<Rightarrow> error + stage" where
  "open_stage loaded =
     (case loaded of
        None \<Rightarrow> Inl (RuntimeError ''Failed to open stage'')
      | Some stage \<Rightarrow> Inr stage)"

text \<open>Lines 44, 68 and 69: the two translations written to the cameras.\<close>

definition stereo_offsets :: "real \<Rightarrow> vec3 \<times> vec3" where
  "stereo_offsets baseline_m =
     (let half_base = baseline_m / 2
      in (Vec3 (- half_base) 0 0, Vec3 half_base 0 0))"

text \<open>Lines 52-58 (and 60-66): the first translate op of the op order, or a new translate
  op appended to it. An op handle is the op's position in the prim's op order.\<close>

definition get_or_create_translate :: "xform_op list \<Rightarrow> xform_op list \<times> nat" where
  "get_or_create_translate ops =
     (case find_translate ops of
        Some i \<Rightarrow> (ops, i)
      | None \<Rightarrow> (ops @ [\<lparr>op_type = TypeTranslate, op_value = None\<rparr>], length ops))"

definition op_set :: "xform_op list \<Rightarrow> nat \<Rightarrow> vec3 \<Rightarrow> xform_op list" where
  "op_set ops i v = ops[i := (ops ! i)\<lparr>op_value := Some v\<rparr>]"

definition op_get :: "xform_op list \<Rightarrow> nat \<Rightarrow> vec3 option" where
  "op_get ops i = op_value (ops ! i)"

text \<open>Lines 30-88. The function has no raising branch: it returns the stage and what it
  printed. A valid camera prim has a valid parent, so the rig prim read at line 77 exists
  whenever the function gets that far; lines 75-88 only read the stage.\<close>

definition setup_stereo_baseline :: "stage \<Rightarrow> real \<Rightarrow> stage \<times> message list" where
  "setup_stereo_baseline stage baseline_m =
     (case stage left_path of
        None \<Rightarrow> (stage, [Warning_no_cameras])
      | Some left_prim \<Rightarrow>
          (case stage right_path of
             None \<Rightarrow> (stage, [Warning_no_cameras])
           | Some right_prim \<Rightarrow>
               (let (left_v, right_v) = stereo_offsets baseline_m;
                    (left_ops, left_op) = get_or_create_translate (xform_ops left_prim);
                    (right_ops, right_op) = get_or_create_translate (xform_ops right_prim);
                    left_ops' = op_set left_ops left_op left_v;
                    right_ops' = op_set right_ops right_op right_v;
                    stage' = stage(left_path \<mapsto> left_prim\<lparr>xform_ops := left_ops'\<rparr>,
                                   right_path \<mapsto> right_prim\<lparr>xform_ops := right_ops'\<rparr>)
                in (stage',
                    [Set_stereo_baseline_mm (baseline_m * 1000),
                     Rig_scale,
                     Left_local_pos (op_get left_ops' left_op),
                     Right_local_pos (op_get right_ops' right_op)]
                    @ (if stage' pantograph_path \<noteq> None then [Pantograph_world_pos]
                       else [])))))"

text \<open>Lines 92-97.\<close>

definition set_semantic_label :: "stage \<Rightarrow> path \<Rightarrow> string \<Rightarrow> error + stage" where
  "set_semantic_label stage prim_path label =
     (case stage prim_path of
        None \<Rightarrow> Inl (RuntimeError (''Missing prim at '' @ prim_path))
      | Some pr \<Rightarrow>
          Inr (stage(prim_path \<mapsto>
                 pr\<lparr>attrs := (attrs pr)(''semantics:class'' \<mapsto> TokenVal label)\<rparr>)))"

text \<open>The calls the script makes to the application, the writer and the orchestrator, and
  its prints, in the order they happen.\<close>

datatype event =
    Print message
  | Makedirs
  | New_layer
  | Create_render_product path
  | Writer_get
  | Writer_initialize
  | Writer_attach
  | Orchestrator_step
  | App_update
  | App_close

text \<open>Lines 21-123: everything up to the attached writer. The result is the events so far
  and either the exception that ended the script or the stage handed to the capture
  loop.\<close>

definition prepare :: "stage option \<Rightarrow> event list \<times> (error + stage)" where
  "prepare loaded =
     (case open_stage loaded of
        Inl e \<Rightarrow> ([], Inl e)
      | Inr stage \<Rightarrow>
          (let (stage1, printed) = setup_stereo_baseline stage 0.12;
               evs = Makedirs # map Print printed @ [New_layer]
           in case set_semantic_label stage1 pantograph_path ''pantograph'' of
                Inl e \<Rightarrow> (evs, Inl e)
              | Inr stage2 \<Rightarrow>
                  (case set_semantic_label stage2 ground_path ''ground'' of
                     Inl e \<Rightarrow> (evs, Inl e)
                   | Inr stage3 \<Rightarrow>
                       (case set_semantic_label stage3 wire_path ''catenary'' of
                          Inl e \<Rightarrow> (evs, Inl e)
                        | Inr stage4 \<Rightarrow>
                            (evs @ [Create_render_product left_path,
                                    Create_render_product right_path,
                                    Writer_get, Writer_initialize, Writer_attach],
                             Inr stage4)))))"

text \<open>Line 139: \<open>(l_pos - r_pos).GetLength()\<close>.\<close>

definition vec_sub :: "vec3 \<Rightarrow> vec3 \<Rightarrow> vec3" where
  "vec_sub a b = Vec3 (vx a - vx b) (vy a - vy b) (vz a - vz b)"

definition GetLength :: "vec3 \<Rightarrow> real" where
  "GetLength v = sqrt ((vx v)\<^sup>2 + (vy v)\<^sup>2 + (vz v)\<^sup>2)"

text \<open>Lines 127-140: one pass of the capture loop. \<open>world_pos\<close> stands for the SDK's
  \<open>ComputeLocalToWorldTransform(0).ExtractTranslation()\<close>.\<close>

definition frame :: "(stage \<Rightarrow> path \<Rightarrow> vec3) \<Rightarrow> stage \<Rightarrow> nat \<Rightarrow> event list" where
  "frame world_pos stage i =
     [Orchestrator_step, App_update]
     @ (if i = 0 then
          (let l_pos = world_pos stage left_path;
               r_pos = world_pos stage right_path;
               dist = GetLength (vec_sub l_pos r_pos)
           in [Print (Frame0_camera_world_pos l_pos r_pos),
               Print (Frame0_baseline_mm (dist * 1000))])
        else [])"

text \<open>Lines 126-146: the capture loop, the idle updates, the close.\<close>

definition capture :: "(stage \<Rightarrow> path \<Rightarrow> vec3) \<Rightarrow> stage \<Rightarrow> event list" where
  "capture world_pos stage =
     concat (map (frame world_pos stage) [0..<NUM_FRAMES])
     @ replicate 5 App_update
     @ [Print Wrote_outputs, App_close]"

definition capture_script ::
  "(stage \<Rightarrow> path \<Rightarrow> vec3) \<Rightarrow> stage option \<Rightarrow> event list \<times> (error + stage)" where
  "capture_script world_pos loaded =
     (case prepare loaded of
        (evs, Inl e) \<Rightarrow> (evs, Inl e)
      | (evs, Inr stage) \<Rightarrow> (evs @ capture world_pos stage, Inr stage))"

text \<open>The events of the capture session proper: writer, capture steps, updates, close.\<close>

fun is_session_event :: "event \<Rightarrow> bool" where
  "is_session_event Writer_get = True"
| "is_session_event Writer_initialize = True"
| "is_session_event Writer_attach = True"
| "is_session_event Orchestrator_step = True"
| "is_session_event App_update = True"
| "is_session_event App_close = True"
| "is_session_event _ = False"

text \<open>Two rigs as the SDK could report them at frame 0: cameras 0.12 m apart, and a rig
  whose ancestor scale puts them 1 m apart.\<close>

definition nominal_rig_pos :: "stage \<Rightarrow> path \<Rightarrow> vec3" where
  "nominal_rig_pos stage p = (if p = left_path then Vec3 (-0.06) 0 0 else Vec3 0.06 0 0)"

definition scaled_rig_pos :: "stage \<Rightarrow> path \<Rightarrow> vec3" where
  "scaled_rig_pos stage p = (if p = left_path then Vec3 (-0.5) 0 0 else Vec3 0.5 0 0)"



section \<open>Facts about the model\<close>

lemmas path_defs =
  left_path_def right_path_def rig_path_def pantograph_path_def ground_path_def wire_path_def

lemmas builder_defs = build_scene_def Define_def AddXformOp_def SetAttr_def

lemma left_right_distinct: "left_path \<noteq> right_path"
  by (simp add: left_path_def right_path_def)

lemma build_scene_left:
  "build_scene left_path =
     Some \<lparr>prim_type = ''Camera'',
           xform_ops = [\<lparr>op_type = TypeTranslate, op_value = Some (Vec3 (- 0.06) 0 0)\<rparr>],
           attrs = [''horizontalAperture'' \<mapsto> FloatVal 6.912, ''verticalAperture'' \<mapsto> FloatVal 3.888,
                    ''focalLength'' \<mapsto> FloatVal 3.5, ''clippingRange'' \<mapsto> Vec2fVal 0.1 100]\<rparr>"
  by (simp add: builder_defs path_defs BASELINE_M_def)

lemma build_scene_right:
  "build_scene right_path =
     Some \<lparr>prim_type = ''Camera'',
           xform_ops = [\<lparr>op_type = TypeTranslate, op_value = Some (Vec3 0.06 0 0)\<rparr>],
           attrs = [''horizontalAperture'' \<mapsto> FloatVal 6.912, ''verticalAperture'' \<mapsto> FloatVal 3.888,
                    ''focalLength'' \<mapsto> FloatVal 3.5, ''clippingRange'' \<mapsto> Vec2fVal 0.1 100]\<rparr>"
  by (simp add: builder_defs path_defs BASELINE_M_def)

lemma find_translate_Some:
  "find_translate ops = Some i \<Longrightarrow> i < length ops \<and> op_type (ops ! i) = TypeTranslate"
  by (induction ops arbitrary: i) (auto split: if_splits)

lemma find_translate_update:
  "find_translate ops = Some i \<Longrightarrow> op_type x = TypeTranslate \<Longrightarrow>
   find_translate (ops[i := x]) = Some i"
  by (induction ops arbitrary: i) (auto split: if_splits)

lemma find_translate_append:
  "find_translate ops = None \<Longrightarrow> op_type x = TypeTranslate \<Longrightarrow>
   find_translate (ops @ [x]) = Some (length ops)"
  by (induction ops) (auto split: if_splits)

lemma get_or_create_set:
  assumes "get_or_create_translate ops = (ops', i)"
  shows "i < length ops'"
    and "find_translate (op_set ops' i v) = Some i"
    and "op_get (op_set ops' i v) i = Some v"
    and "get_or_create_translate (op_set ops' i w) = (op_set ops' i w, i)"
    and "op_set (op_set ops' i w) i v = op_set ops' i v"
proof -
  have f: "find_translate ops' = Some i"
    using assms
    by (auto simp: get_or_create_translate_def find_translate_append split: option.splits)
  show lt: "i < length ops'" using find_translate_Some [OF f] by simp
  have ty: "op_type (ops' ! i) = TypeTranslate" using find_translate_Some [OF f] by simp
  show "find_translate (op_set ops' i v) = Some i"
    unfolding op_set_def using f ty by (intro find_translate_update) simp_all
  then have "\<And>u. find_translate (op_set ops' i u) = Some i"
    unfolding op_set_def using f ty by (intro find_translate_update) simp_all
  then show "get_or_create_translate (op_set ops' i w) = (op_set ops' i w, i)"
    by (simp add: get_or_create_translate_def)
  show "op_get (op_set ops' i v) i = Some v"
    using lt by (simp add: op_get_def op_set_def)
  show "op_set (op_set ops' i w) i v = op_set ops' i v"
    using lt by (simp add: op_set_def)
qed

lemma setup_valid:
  assumes "s left_path = Some lp" and "s right_path = Some rp"
    and "get_or_create_translate (xform_ops lp) = (lo, li)"
    and "get_or_create_translate (xform_ops rp) = (ro, ri)"
  shows "setup_stereo_baseline s b =
    (s(left_path \<mapsto> lp\<lparr>xform_ops := op_set lo li (Vec3 (- (b / 2)) 0 0)\<rparr>,
       right_path \<mapsto> rp\<lparr>xform_ops := op_set ro ri (Vec3 (b / 2) 0 0)\<rparr>),
     [Set_stereo_baseline_mm (b * 1000), Rig_scale,
      Left_local_pos (Some (Vec3 (- (b / 2)) 0 0)),
      Right_local_pos (Some (Vec3 (b / 2) 0 0))]
     @ (if s pantograph_path \<noteq> None then [Pantograph_world_pos] else []))"
proof -
  have pl: "pantograph_path \<noteq> left_path" "pantograph_path \<noteq> right_path"
    by (simp_all add: path_defs)
  show ?thesis
    using assms pl get_or_create_set(3) [OF assms(3)] get_or_create_set(3) [OF assms(4)]
    by (simp add: setup_stereo_baseline_def stereo_offsets_def Let_def)
qed

lemma setup_local_pos:
  assumes "s left_path \<noteq> None" and "s right_path \<noteq> None"
  shows "local_pos (fst (setup_stereo_baseline s b)) left_path = Some (Vec3 (- (b / 2)) 0 0)"
    and "local_pos (fst (setup_stereo_baseline s b)) right_path = Some (Vec3 (b / 2) 0 0)"
proof -
  obtain lp rp where v: "s left_path = Some lp" "s right_path = Some rp"
    using assms by auto
  obtain lo li where l: "get_or_create_translate (xform_ops lp) = (lo, li)"
    by (cases "get_or_create_translate (xform_ops lp)")
  obtain ro ri where r: "get_or_create_translate (xform_ops rp) = (ro, ri)"
    by (cases "get_or_create_translate (xform_ops rp)")
  note su = setup_valid [OF v l r]
  show "local_pos (fst (setup_stereo_baseline s b)) left_path = Some (Vec3 (- (b / 2)) 0 0)"
    using get_or_create_set(2,3) [OF l] left_right_distinct
    by (simp add: su local_pos_def op_get_def)
  show "local_pos (fst (setup_stereo_baseline s b)) right_path = Some (Vec3 (b / 2) 0 0)"
    using get_or_create_set(2,3) [OF r] left_right_distinct
    by (simp add: su local_pos_def op_get_def)
qed

lemma GetLength_x: "GetLength (vec_sub (Vec3 a 0 0) (Vec3 b 0 0)) = \<bar>a - b\<bar>"
  by (simp add: GetLength_def vec_sub_def)

lemma frame_first:
  "frame world_pos stage 0 =
     [Orchestrator_step, App_update,
      Print (Frame0_camera_world_pos (world_pos stage left_path) (world_pos stage right_path)),
      Print (Frame0_baseline_mm
        (GetLength (vec_sub (world_pos stage left_path) (world_pos stage right_path)) * 1000))]"
  by (simp add: frame_def Let_def)

lemma session_frame:
  "filter is_session_event (frame world_pos stage i) = [Orchestrator_step, App_update]"
  by (simp add: frame_def Let_def)

lemma session_capture:
  "filter is_session_event (capture world_pos stage) =
     concat (replicate NUM_FRAMES [Orchestrator_step, App_update]) @ replicate 5 App_update @ [App_close]"
proof -
  have "filter is_session_event (concat (map (frame world_pos stage) xs))
        = concat (replicate (length xs) [Orchestrator_step, App_update])" for xs
    by (induction xs) (simp_all add: session_frame)
  from this [of "[0..<NUM_FRAMES]"] show ?thesis
    by (simp add: capture_def)
qed

lemma setup_dom: "fst (setup_stereo_baseline s b) p = None \<longleftrightarrow> s p = None"
  by (auto simp: setup_stereo_baseline_def Let_def split: option.splits prod.splits)

lemma setup_printed_session: "filter is_session_event (map Print ms) = []"
  by (induction ms) simp_all

lemma setup_printed_nostep: "Orchestrator_step \<notin> set (map Print ms)"
  by auto

lemma label_other:
  "set_semantic_label s p l = Inr s' \<Longrightarrow> q \<noteq> p \<Longrightarrow> s' q = s q"
  by (auto simp: set_semantic_label_def split: option.splits)

lemma label_local_pos:
  "set_semantic_label s p l = Inr s' \<Longrightarrow> local_pos s' q = local_pos s q"
  by (cases "q = p") (auto simp: set_semantic_label_def local_pos_def split: option.splits)

lemma prepare_Inr:
  assumes "snd (prepare loaded) = Inr s'"
  shows "\<exists>s ms. loaded = Some s \<and>
      fst (prepare loaded) = Makedirs # map Print ms @ [New_layer, Create_render_product left_path,
                                    Create_render_product right_path,
                                    Writer_get, Writer_initialize, Writer_attach] \<and>
      local_pos s' left_path = local_pos (fst (setup_stereo_baseline s 0.12)) left_path \<and>
      local_pos s' right_path = local_pos (fst (setup_stereo_baseline s 0.12)) right_path"
  using assms
  by (auto simp: prepare_def open_stage_def Let_def label_local_pos
           split: option.splits sum.splits prod.splits)

lemma setup_dom_eq:
  "setup_stereo_baseline s b = (s1, ms) \<Longrightarrow> s p \<noteq> None \<Longrightarrow> s1 p \<noteq> None"
  using setup_dom [of s b p] by simp

lemma label_ok:
  "s p \<noteq> None \<Longrightarrow>
   set_semantic_label s p l = Inr (SetAttr p ''semantics:class'' (TokenVal l) s)"
  by (auto simp: set_semantic_label_def SetAttr_def)

lemma SetAttr_valid: "s q \<noteq> None \<Longrightarrow> SetAttr p n v s q \<noteq> None"
  by (auto simp: SetAttr_def split: option.splits)

lemma prepare_Some:
  "prepare (Some s) =
     (case setup_stereo_baseline s 0.12 of (stage1, printed) \<Rightarrow>
       (case set_semantic_label stage1 pantograph_path ''pantograph'' of
                Inl e \<Rightarrow> (Makedirs # map Print printed @ [New_layer], Inl e)
              | Inr stage2 \<Rightarrow>
                  (case set_semantic_label stage2 ground_path ''ground'' of
                     Inl e \<Rightarrow> (Makedirs # map Print printed @ [New_layer], Inl e)
                   | Inr stage3 \<Rightarrow>
                       (case set_semantic_label stage3 wire_path ''catenary'' of
                          Inl e \<Rightarrow> (Makedirs # map Print printed @ [New_layer], Inl e)
                        | Inr stage4 \<Rightarrow>
                            (Makedirs # map Print printed @ [New_layer, Create_render_product left_path,
                                    Create_render_product right_path,
                                    Writer_get, Writer_initialize, Writer_attach],
                             Inr stage4)))))"
  by (simp add: prepare_def open_stage_def Let_def split: prod.splits sum.splits)

lemma prepare_ok:
  assumes "s pantograph_path \<noteq> None" "s ground_path \<noteq> None" "s wire_path \<noteq> None"
  shows "snd (prepare (Some s)) =
    Inr (SetAttr wire_path ''semantics:class'' (TokenVal ''catenary'')
          (SetAttr ground_path ''semantics:class'' (TokenVal ''ground'')
            (SetAttr pantograph_path ''semantics:class'' (TokenVal ''pantograph'')
              (fst (setup_stereo_baseline s 0.12)))))"
proof -
  obtain s1 ms where s1: "setup_stereo_baseline s 0.12 = (s1, ms)"
    by (cases "setup_stereo_baseline s 0.12")
  note v1 = assms [THEN setup_dom_eq [OF s1]]
  have l1: "set_semantic_label s1 pantograph_path ''pantograph'' =
      Inr (SetAttr pantograph_path ''semantics:class'' (TokenVal ''pantograph'') s1)"
    using v1(1) by (rule label_ok)
  have l2: "set_semantic_label (SetAttr pantograph_path ''semantics:class'' (TokenVal ''pantograph'') s1)
       ground_path ''ground'' =
      Inr (SetAttr ground_path ''semantics:class'' (TokenVal ''ground'')
        (SetAttr pantograph_path ''semantics:class'' (TokenVal ''pantograph'') s1))"
    using v1(2) by (intro label_ok SetAttr_valid)
  have l3: "set_semantic_label (SetAttr ground_path ''semantics:class'' (TokenVal ''ground'')
        (SetAttr pantograph_path ''semantics:class'' (TokenVal ''pantograph'') s1))
       wire_path ''catenary'' =
      Inr (SetAttr wire_path ''semantics:class'' (TokenVal ''catenary'')
       (SetAttr ground_path ''semantics:class'' (TokenVal ''ground'')
        (SetAttr pantograph_path ''semantics:class'' (TokenVal ''pantograph'') s1)))"
    using v1(3) by (intro label_ok SetAttr_valid)
  show ?thesis
    unfolding prepare_Some s1 by (simp only: l1 l2 l3 prod.case sum.case snd_conv fst_conv)
qed

lemma build_scene_labelled:
  "build_scene pantograph_path \<noteq> None" "build_scene ground_path \<noteq> None"
  "build_scene wire_path \<noteq> None"
  by (simp_all add: builder_defs path_defs)

lemma setup_printed:
  assumes "s left_path \<noteq> None" and "s right_path \<noteq> None"
  shows "snd (setup_stereo_baseline s b) =
     [Set_stereo_baseline_mm (b * 1000), Rig_scale,
      Left_local_pos (Some (Vec3 (- (b / 2)) 0 0)),
      Right_local_pos (Some (Vec3 (b / 2) 0 0))]
     @ (if s pantograph_path \<noteq> None then [Pantograph_world_pos] else [])"
proof -
  obtain lp rp where v: "s left_path = Some lp" "s right_path = Some rp"
    using assms by auto
  obtain lo li where l: "get_or_create_translate (xform_ops lp) = (lo, li)"
    by (cases "get_or_create_translate (xform_ops lp)")
  obtain ro ri where r: "get_or_create_translate (xform_ops rp) = (ro, ri)"
    by (cases "get_or_create_translate (xform_ops rp)")
  show ?thesis by (simp add: setup_valid [OF v l r])
qed

lemma build_scene_cameras:
  "build_scene left_path \<noteq> None" "build_scene right_path \<noteq> None"
  by (simp_all add: build_scene_left build_scene_right)



lemma capture_script_session:
  assumes "\<not> isl (snd (capture_script world_pos loaded))"
  shows "filter is_session_event (fst (capture_script world_pos loaded)) =
     [Writer_get, Writer_initialize, Writer_attach]
     @ concat (replicate NUM_FRAMES [Orchestrator_step, App_update])
     @ replicate 5 App_update @ [App_close]"
proof -
  obtain evs r where p: "prepare loaded = (evs, r)" by (cases "prepare loaded")
  from assms p obtain s' where r: "r = Inr s'"
    by (cases r) (simp_all add: capture_script_def)
  from prepare_Inr [of loaded s'] p r obtain ms where
    evs: "evs = Makedirs # map Print ms @ [New_layer, Create_render_product left_path,
             Create_render_product right_path, Writer_get, Writer_initialize, Writer_attach]"
    by auto
  have "filter is_session_event evs = [Writer_get, Writer_initialize, Writer_attach]"
    by (simp add: evs setup_printed_session)
  then show ?thesis
    by (simp add: capture_script_def p r session_capture)
qed

lemma count_step:
  "count_list ([Writer_get, Writer_initialize, Writer_attach]
     @ concat (replicate n [Orchestrator_step, App_update])
     @ replicate 5 App_update @ [App_close]) Orchestrator_step = n"
  by (induction n) simp_all

lemma count_session:
  "is_session_event e \<Longrightarrow> count_list (filter is_session_event evs) e = count_list evs e"
  by (induction evs) auto

lemma capture_script_ok:
  assumes "s pantograph_path \<noteq> None" "s ground_path \<noteq> None" "s wire_path \<noteq> None"
  shows "\<not> isl (snd (capture_script world_pos (Some s)))"
proof -
  obtain evs where "prepare (Some s) = (evs, snd (prepare (Some s)))"
    by (cases "prepare (Some s)") simp
  then show ?thesis
    using prepare_ok [OF assms] by (simp add: capture_script_def split: prod.splits)
qed

lemma get_or_create_set_ops:
  assumes "get_or_create_translate ops = (ops', i)"
  shows "op_set ops' i v =
     (case find_translate ops of
        Some j \<Rightarrow> ops[j := \<lparr>op_type = TypeTranslate, op_value = Some v\<rparr>]
      | None \<Rightarrow> ops @ [\<lparr>op_type = TypeTranslate, op_value = Some v\<rparr>])"
proof (cases "find_translate ops")
  case None
  then show ?thesis
    using assms by (auto simp: get_or_create_translate_def op_set_def)
next
  case (Some j)
  then have "ops' = ops" "i = j"
    using assms by (simp_all add: get_or_create_translate_def)
  moreover have "(ops ! j)\<lparr>op_value := Some v\<rparr> = \<lparr>op_type = TypeTranslate, op_value = Some v\<rparr>"
    using find_translate_Some [OF Some] by simp
  ultimately show ?thesis
    using Some by (simp add: op_set_def)
qed

lemma setup_cameras:
  assumes "s left_path = Some lp" and "s right_path = Some rp"
  shows "fst (setup_stereo_baseline s b) left_path =
     Some (lp\<lparr>xform_ops :=
       (case find_translate (xform_ops lp) of
          Some i \<Rightarrow> (xform_ops lp)[i := \<lparr>op_type = TypeTranslate,
                                          op_value = Some (Vec3 (- (b / 2)) 0 0)\<rparr>]
        | None \<Rightarrow> xform_ops lp @ [\<lparr>op_type = TypeTranslate,
                                     op_value = Some (Vec3 (- (b / 2)) 0 0)\<rparr>])\<rparr>)"
    and "fst (setup_stereo_baseline s b) right_path =
     Some (rp\<lparr>xform_ops :=
       (case find_translate (xform_ops rp) of
          Some i \<Rightarrow> (xform_ops rp)[i := \<lparr>op_type = TypeTranslate,
                                          op_value = Some (Vec3 (b / 2) 0 0)\<rparr>]
        | None \<Rightarrow> xform_ops rp @ [\<lparr>op_type = TypeTranslate,
                                     op_value = Some (Vec3 (b / 2) 0 0)\<rparr>])\<rparr>)"
proof -
  obtain lo li where l: "get_or_create_translate (xform_ops lp) = (lo, li)"
    by (cases "get_or_create_translate (xform_ops lp)")
  obtain ro ri where r: "get_or_create_translate (xform_ops rp) = (ro, ri)"
    by (cases "get_or_create_translate (xform_ops rp)")
  note su = setup_valid [OF assms l r]
  show "fst (setup_stereo_baseline s b) left_path =
     Some (lp\<lparr>xform_ops :=
       (case find_translate (xform_ops lp) of
          Some i \<Rightarrow> (xform_ops lp)[i := \<lparr>op_type = TypeTranslate,
                                          op_value = Some (Vec3 (- (b / 2)) 0 0)\<rparr>]
        | None \<Rightarrow> xform_ops lp @ [\<lparr>op_type = TypeTranslate,
                                     op_value = Some (Vec3 (- (b / 2)) 0 0)\<rparr>])\<rparr>)"
    using left_right_distinct by (simp add: su get_or_create_set_ops [OF l])
  show "fst (setup_stereo_baseline s b) right_path =
     Some (rp\<lparr>xform_ops :=
       (case find_translate (xform_ops rp) of
          Some i \<Rightarrow> (xform_ops rp)[i := \<lparr>op_type = TypeTranslate,
                                          op_value = Some (Vec3 (b / 2) 0 0)\<rparr>]
        | None \<Rightarrow> xform_ops rp @ [\<lparr>op_type = TypeTranslate,
                                     op_value = Some (Vec3 (b / 2) 0 0)\<rparr>])\<rparr>)"
    by (simp add: su get_or_create_set_ops [OF r])
qed

lemma setup_other:
  "p \<noteq> left_path \<Longrightarrow> p \<noteq> right_path \<Longrightarrow> fst (setup_stereo_baseline s b) p = s p"
  by (auto simp: setup_stereo_baseline_def Let_def split: option.splits prod.splits)

lemma single_translate_ops:
  assumes "ops = [] \<or> (length ops = 1 \<and> op_type (hd ops) = TypeTranslate)"
  shows "(case find_translate ops of
            Some i \<Rightarrow> ops[i := \<lparr>op_type = TypeTranslate, op_value = Some v\<rparr>]
          | None \<Rightarrow> ops @ [\<lparr>op_type = TypeTranslate, op_value = Some v\<rparr>])
         = [\<lparr>op_type = TypeTranslate, op_value = Some v\<rparr>]"
proof (cases ops)
  case Nil
  then show ?thesis by simp
next
  case (Cons x xs)
  then have "xs = []" "op_type x = TypeTranslate" using assms by auto
  then show ?thesis using Cons by simp
qed

lemma prepare_Inr_cameras:
  assumes "snd (prepare (Some s)) = Inr s'"
  shows "s' left_path = fst (setup_stereo_baseline s 0.12) left_path"
    and "s' right_path = fst (setup_stereo_baseline s 0.12) right_path"
proof -
  have d: "left_path \<noteq> pantograph_path" "left_path \<noteq> ground_path" "left_path \<noteq> wire_path"
    "right_path \<noteq> pantograph_path" "right_path \<noteq> ground_path" "right_path \<noteq> wire_path"
    by (simp_all add: path_defs)
  obtain s1 ms where s1: "setup_stereo_baseline s 0.12 = (s1, ms)"
    by (cases "setup_stereo_baseline s 0.12")
  from assms obtain s2 s3 where
    "set_semantic_label s1 pantograph_path ''pantograph'' = Inr s2"
    "set_semantic_label s2 ground_path ''ground'' = Inr s3"
    "set_semantic_label s3 wire_path ''catenary'' = Inr s'"
    unfolding prepare_Some s1 by (auto split: sum.splits)
  then have "s' left_path = s1 left_path" "s' right_path = s1 right_path"
    using d by (simp_all add: label_other)
  then show "s' left_path = fst (setup_stereo_baseline s 0.12) left_path"
    and "s' right_path = fst (setup_stereo_baseline s 0.12) right_path"
    unfolding s1 by simp_all
qed

lemma two_translates_scene:
  "run_calls
     [Define left_path ''Camera'',
      AddXformOp left_path TypeTranslate (Vec3 1 0 0),
      AddXformOp left_path TypeTranslate (Vec3 5 0 0),
      Define right_path ''Camera'',
      AddXformOp right_path TypeTranslate (Vec3 7 0 0)] Map.empty left_path
   = Some \<lparr>prim_type = ''Camera'',
           xform_ops = [\<lparr>op_type = TypeTranslate, op_value = Some (Vec3 1 0 0)\<rparr>,
                        \<lparr>op_type = TypeTranslate, op_value = Some (Vec3 5 0 0)\<rparr>],
           attrs = Map.empty\<rparr>"
  "run_calls
     [Define left_path ''Camera'',
      AddXformOp left_path TypeTranslate (Vec3 1 0 0),
      AddXformOp left_path TypeTranslate (Vec3 5 0 0),
      Define right_path ''Camera'',
      AddXformOp right_path TypeTranslate (Vec3 7 0 0)] Map.empty right_path
   = Some \<lparr>prim_type = ''Camera'',
           xform_ops = [\<lparr>op_type = TypeTranslate, op_value = Some (Vec3 7 0 0)\<rparr>],
           attrs = Map.empty\<rparr>"
  by (simp_all add: Define_def AddXformOp_def path_defs)






section \<open>The claims\<close>

text \<open>
  C1 (amended). The formula of lines 52-53 gives 3.456 mm for a 1920 pixel wide image, a
  90 degree field of view and a 3.6 micrometre pixel pitch, but that value is not what the
  cameras get: the focal length set on the left and on the right camera is the literal
  3.5 mm.
\<close>

theorem camera_focal_length:
  "focal_length_mm = 3.456
   \<and> get_attr build_scene left_path ''focalLength'' = Some (FloatVal 3.5)
   \<and> get_attr build_scene right_path ''focalLength'' = Some (FloatVal 3.5)"
proof -
  have "focal_length_mm = 3.456"
    by (simp add: focal_length_mm_def IMAGE_WIDTH_def HFOV_DEG_def radians_def tan_45)
  then show ?thesis
    by (simp add: get_attr_def build_scene_left build_scene_right)
qed

text \<open>
  C1 as stated fails: the focal length of the left camera in the built scene is not the
  value of the formula.
\<close>

theorem camera_focal_length_counterexample:
  "get_attr build_scene left_path ''focalLength'' \<noteq> Some (FloatVal focal_length_mm)"
proof -
  have "focal_length_mm = 3.456"
    by (simp add: focal_length_mm_def IMAGE_WIDTH_def HFOV_DEG_def radians_def tan_45)
  then show ?thesis
    by (simp add: get_attr_def build_scene_left)
qed

text \<open>
  C2 (amended). At frame 0 the capture script measures the baseline as the Euclidean
  distance between the two camera world positions and prints it, in millimetres, after the
  first capture step; it has no expected baseline, tolerance, delta or ok flag. For the
  positions (-0.06,0,0), (0.06,0,0) the distance is 0.12 and for (-0.5,0,0), (0.5,0,0)
  it is 1.
\<close>

theorem frame0_baseline_measured:
  "frame world_pos stage 0 =
     [Orchestrator_step, App_update,
      Print (Frame0_camera_world_pos (world_pos stage left_path) (world_pos stage right_path)),
      Print (Frame0_baseline_mm
        (sqrt ((vx (world_pos stage left_path) - vx (world_pos stage right_path))\<^sup>2
             + (vy (world_pos stage left_path) - vy (world_pos stage right_path))\<^sup>2
             + (vz (world_pos stage left_path) - vz (world_pos stage right_path))\<^sup>2) * 1000))]
   \<and> GetLength (vec_sub (Vec3 (- 0.06) 0 0) (Vec3 0.06 0 0)) = 0.12
   \<and> GetLength (vec_sub (Vec3 (- 0.5) 0 0) (Vec3 0.5 0 0)) = 1"
  by (simp add: frame_first GetLength_x) (simp add: GetLength_def vec_sub_def)

text \<open>
  C2 as stated fails: for cameras reported 1 m apart, against the configured 0.12 m, all
  that the check produces is the two printed lines, and the session goes on exactly as
  for cameras 0.12 m apart.
\<close>

theorem frame0_baseline_counterexample:
  "frame scaled_rig_pos build_scene 0 =
     [Orchestrator_step, App_update,
      Print (Frame0_camera_world_pos (Vec3 (- 0.5) 0 0) (Vec3 0.5 0 0)),
      Print (Frame0_baseline_mm 1000)]
   \<and> filter is_session_event (fst (capture_script scaled_rig_pos (Some build_scene)))
     = filter is_session_event (fst (capture_script nominal_rig_pos (Some build_scene)))"
proof -
  have "frame scaled_rig_pos build_scene 0 =
     [Orchestrator_step, App_update,
      Print (Frame0_camera_world_pos (Vec3 (- 0.5) 0 0) (Vec3 0.5 0 0)),
      Print (Frame0_baseline_mm 1000)]"
    using left_right_distinct
    by (simp add: frame_first scaled_rig_pos_def GetLength_x)
  moreover have "filter is_session_event (fst (capture_script w (Some build_scene)))
     = filter is_session_event (fst (prepare (Some build_scene)))
       @ (case snd (prepare (Some build_scene)) of Inl e \<Rightarrow> []
          | Inr s \<Rightarrow> concat (replicate NUM_FRAMES [Orchestrator_step, App_update])
                     @ replicate 5 App_update @ [App_close])" for w
    by (simp add: capture_script_def session_capture split: prod.splits sum.splits)
  ultimately show ?thesis by simp
qed

text \<open>
  C3 (amended). When both camera prims exist, \<open>setup_stereo_baseline b\<close> sets the first
  translate op of the left camera to (-b/2, 0, 0) and that of the right camera to
  (+b/2, 0, 0), whatever value the op held, and appends such an op to a camera that has
  no translate op. It changes nothing else: every other op of the cameras, the cameras'
  types and attributes and every other prim stay as loaded. So for cameras whose op
  order is empty or is the one translate op the scene builder writes, the op orders
  afterwards are exactly the translations (-b/2, 0, 0) and (+b/2, 0, 0), negations of
  each other along the baseline axis. The script does this with b = 0.12 before it
  issues any capture step: when the preparation (lines 21-123) ends without an
  exception, no orchestrator step has happened and the stage handed to the capture loop
  has the cameras as that call left them.
\<close>

theorem baseline_reasserted_before_capture:
  assumes "s left_path = Some lp" and "s right_path = Some rp"
  shows "fst (setup_stereo_baseline s b) left_path =
           Some (lp\<lparr>xform_ops :=
             (case find_translate (xform_ops lp) of
                Some i \<Rightarrow> (xform_ops lp)[i := \<lparr>op_type = TypeTranslate,
                                                op_value = Some (Vec3 (- (b / 2)) 0 0)\<rparr>]
              | None \<Rightarrow> xform_ops lp @ [\<lparr>op_type = TypeTranslate,
                                           op_value = Some (Vec3 (- (b / 2)) 0 0)\<rparr>])\<rparr>)
       \<and> fst (setup_stereo_baseline s b) right_path =
           Some (rp\<lparr>xform_ops :=
             (case find_translate (xform_ops rp) of
                Some i \<Rightarrow> (xform_ops rp)[i := \<lparr>op_type = TypeTranslate,
                                                op_value = Some (Vec3 (b / 2) 0 0)\<rparr>]
              | None \<Rightarrow> xform_ops rp @ [\<lparr>op_type = TypeTranslate,
                                           op_value = Some (Vec3 (b / 2) 0 0)\<rparr>])\<rparr>)
       \<and> (p \<noteq> left_path \<and> p \<noteq> right_path \<longrightarrow> fst (setup_stereo_baseline s b) p = s p)
       \<and> local_pos (fst (setup_stereo_baseline s b)) left_path = Some (Vec3 (- (b / 2)) 0 0)
       \<and> local_pos (fst (setup_stereo_baseline s b)) right_path = Some (Vec3 (b / 2) 0 0)
       \<and> (xform_ops lp = []
            \<or> length (xform_ops lp) = 1 \<and> op_type (hd (xform_ops lp)) = TypeTranslate \<longrightarrow>
          map_option xform_ops (fst (setup_stereo_baseline s b) left_path) =
            Some [\<lparr>op_type = TypeTranslate, op_value = Some (Vec3 (- (b / 2)) 0 0)\<rparr>])
       \<and> (xform_ops rp = []
            \<or> length (xform_ops rp) = 1 \<and> op_type (hd (xform_ops rp)) = TypeTranslate \<longrightarrow>
          map_option xform_ops (fst (setup_stereo_baseline s b) right_path) =
            Some [\<lparr>op_type = TypeTranslate, op_value = Some (Vec3 (b / 2) 0 0)\<rparr>])
       \<and> (snd (prepare (Some s)) = Inr s' \<longrightarrow>
            Orchestrator_step \<notin> set (fst (prepare (Some s)))
            \<and> s' left_path = fst (setup_stereo_baseline s 0.12) left_path
            \<and> s' right_path = fst (setup_stereo_baseline s 0.12) right_path
            \<and> local_pos s' left_path = Some (Vec3 (- 0.06) 0 0)
            \<and> local_pos s' right_path = Some (Vec3 0.06 0 0))"
proof -
  have v: "s left_path \<noteq> None" "s right_path \<noteq> None"
    using assms by simp_all
  note c = setup_cameras [OF assms, of b]
  have o: "p \<noteq> left_path \<and> p \<noteq> right_path \<longrightarrow> fst (setup_stereo_baseline s b) p = s p"
    by (simp add: setup_other)
  note lpos = setup_local_pos [OF v, of b]
  have sl: "map_option xform_ops (fst (setup_stereo_baseline s b) left_path) =
            Some [\<lparr>op_type = TypeTranslate, op_value = Some (Vec3 (- (b / 2)) 0 0)\<rparr>]"
    if "xform_ops lp = []
        \<or> length (xform_ops lp) = 1 \<and> op_type (hd (xform_ops lp)) = TypeTranslate"
    by (simp add: c(1) single_translate_ops [OF that])
  have sr: "map_option xform_ops (fst (setup_stereo_baseline s b) right_path) =
            Some [\<lparr>op_type = TypeTranslate, op_value = Some (Vec3 (b / 2) 0 0)\<rparr>]"
    if "xform_ops rp = []
        \<or> length (xform_ops rp) = 1 \<and> op_type (hd (xform_ops rp)) = TypeTranslate"
    by (simp add: c(2) single_translate_ops [OF that])
  have pr: "Orchestrator_step \<notin> set (fst (prepare (Some s)))
        \<and> s' left_path = fst (setup_stereo_baseline s 0.12) left_path
        \<and> s' right_path = fst (setup_stereo_baseline s 0.12) right_path
        \<and> local_pos s' left_path = Some (Vec3 (- 0.06) 0 0)
        \<and> local_pos s' right_path = Some (Vec3 0.06 0 0)"
    if "snd (prepare (Some s)) = Inr s'"
    using prepare_Inr [OF that] prepare_Inr_cameras [OF that] setup_local_pos [OF v, of "0.12"]
    by auto
  from c o lpos sl sr pr show ?thesis by blast
qed

text \<open>
  The theorem at a scene whose cameras were left 1 m apart: they come back to 0.12 m.
\<close>

theorem baseline_reasserted_before_capture_witness:
  "fst (setup_stereo_baseline build_scene 1) left_path =
     Some \<lparr>prim_type = ''Camera'',
           xform_ops = [\<lparr>op_type = TypeTranslate, op_value = Some (Vec3 (- (1 / 2)) 0 0)\<rparr>],
           attrs = [''horizontalAperture'' \<mapsto> FloatVal 6.912,
                    ''verticalAperture'' \<mapsto> FloatVal 3.888,
                    ''focalLength'' \<mapsto> FloatVal 3.5,
                    ''clippingRange'' \<mapsto> Vec2fVal 0.1 100]\<rparr>
   \<and> fst (setup_stereo_baseline build_scene 1) right_path =
     Some \<lparr>prim_type = ''Camera'',
           xform_ops = [\<lparr>op_type = TypeTranslate, op_value = Some (Vec3 (1 / 2) 0 0)\<rparr>],
           attrs = [''horizontalAperture'' \<mapsto> FloatVal 6.912,
                    ''verticalAperture'' \<mapsto> FloatVal 3.888,
                    ''focalLength'' \<mapsto> FloatVal 3.5,
                    ''clippingRange'' \<mapsto> Vec2fVal 0.1 100]\<rparr>
   \<and> map_option xform_ops
        (fst (setup_stereo_baseline (fst (setup_stereo_baseline build_scene 1)) 0.12) left_path)
       = Some [\<lparr>op_type = TypeTranslate, op_value = Some (Vec3 (- (0.12 / 2)) 0 0)\<rparr>]
   \<and> map_option xform_ops
        (fst (setup_stereo_baseline (fst (setup_stereo_baseline build_scene 1)) 0.12) right_path)
       = Some [\<lparr>op_type = TypeTranslate, op_value = Some (Vec3 (0.12 / 2) 0 0)\<rparr>]
   \<and> fst (setup_stereo_baseline (fst (setup_stereo_baseline build_scene 1)) 0.12) pantograph_path
       = fst (setup_stereo_baseline build_scene 1) pantograph_path
   \<and> snd (prepare (Some (fst (setup_stereo_baseline build_scene 1)))) =
        Inr (SetAttr wire_path ''semantics:class'' (TokenVal ''catenary'')
          (SetAttr ground_path ''semantics:class'' (TokenVal ''ground'')
            (SetAttr pantograph_path ''semantics:class'' (TokenVal ''pantograph'')
              (fst (setup_stereo_baseline (fst (setup_stereo_baseline build_scene 1)) 0.12)))))
   \<and> Orchestrator_step \<notin> set (fst (prepare (Some (fst (setup_stereo_baseline build_scene 1)))))
   \<and> local_pos (SetAttr wire_path ''semantics:class'' (TokenVal ''catenary'')
          (SetAttr ground_path ''semantics:class'' (TokenVal ''ground'')
            (SetAttr pantograph_path ''semantics:class'' (TokenVal ''pantograph'')
              (fst (setup_stereo_baseline (fst (setup_stereo_baseline build_scene 1)) 0.12)))))
        left_path = Some (Vec3 (- 0.06) 0 0)
   \<and> local_pos (SetAttr wire_path ''semantics:class'' (TokenVal ''catenary'')
          (SetAttr ground_path ''semantics:class'' (TokenVal ''ground'')
            (SetAttr pantograph_path ''semantics:class'' (TokenVal ''pantograph'')
              (fst (setup_stereo_baseline (fst (setup_stereo_baseline build_scene 1)) 0.12)))))
        right_path = Some (Vec3 0.06 0 0)"
proof -
  let ?s = "fst (setup_stereo_baseline build_scene 1)"
  let ?s' = "SetAttr wire_path ''semantics:class'' (TokenVal ''catenary'')
          (SetAttr ground_path ''semantics:class'' (TokenVal ''ground'')
            (SetAttr pantograph_path ''semantics:class'' (TokenVal ''pantograph'')
              (fst (setup_stereo_baseline ?s 0.12))))"
  let ?lp = "\<lparr>prim_type = ''Camera'',
           xform_ops = [\<lparr>op_type = TypeTranslate, op_value = Some (Vec3 (- (1 / 2)) 0 0)\<rparr>],
           attrs = [''horizontalAperture'' \<mapsto> FloatVal 6.912,
                    ''verticalAperture'' \<mapsto> FloatVal 3.888,
                    ''focalLength'' \<mapsto> FloatVal 3.5,
                    ''clippingRange'' \<mapsto> Vec2fVal 0.1 100]\<rparr>"
  let ?rp = "\<lparr>prim_type = ''Camera'',
           xform_ops = [\<lparr>op_type = TypeTranslate, op_value = Some (Vec3 (1 / 2) 0 0)\<rparr>],
           attrs = [''horizontalAperture'' \<mapsto> FloatVal 6.912,
                    ''verticalAperture'' \<mapsto> FloatVal 3.888,
                    ''focalLength'' \<mapsto> FloatVal 3.5,
                    ''clippingRange'' \<mapsto> Vec2fVal 0.1 100]\<rparr>"
  have l: "?s left_path = Some ?lp"
    using setup_cameras(1) [OF build_scene_left build_scene_right, of 1] by simp
  have r: "?s right_path = Some ?rp"
    using setup_cameras(2) [OF build_scene_left build_scene_right, of 1] by simp
  have cl: "xform_ops ?lp = []
      \<or> length (xform_ops ?lp) = 1 \<and> op_type (hd (xform_ops ?lp)) = TypeTranslate"
    by simp
  have cr: "xform_ops ?rp = []
      \<or> length (xform_ops ?rp) = 1 \<and> op_type (hd (xform_ops ?rp)) = TypeTranslate"
    by simp
  have d: "pantograph_path \<noteq> left_path \<and> pantograph_path \<noteq> right_path"
    by (simp add: path_defs)
  have p: "snd (prepare (Some ?s)) = Inr ?s'"
    by (rule prepare_ok) (simp_all only: setup_dom build_scene_labelled not_False_eq_True)
  show ?thesis
    using baseline_reasserted_before_capture [OF l r, of "0.12" pantograph_path ?s'] l r cl cr d p
    by blast
qed

text \<open>
  C3 as stated fails: a left camera loaded with two translate ops, (1, 0, 0) and
  (5, 0, 0), keeps the second one. After \<open>setup_stereo_baseline 0.12\<close> its op order is
  (-0.06, 0, 0) followed by (5, 0, 0), while the right camera's is (0.06, 0, 0) alone: the
  loaded translation (5, 0, 0) is not overwritten and the two poses are not negations of
  each other.
\<close>

theorem stale_translate_counterexample:
  "map_option xform_ops
     (fst (setup_stereo_baseline
            (run_calls
               [Define left_path ''Camera'',
                AddXformOp left_path TypeTranslate (Vec3 1 0 0),
                AddXformOp left_path TypeTranslate (Vec3 5 0 0),
                Define right_path ''Camera'',
                AddXformOp right_path TypeTranslate (Vec3 7 0 0)] Map.empty)
            0.12) left_path)
   = Some [\<lparr>op_type = TypeTranslate, op_value = Some (Vec3 (- 0.06) 0 0)\<rparr>,
           \<lparr>op_type = TypeTranslate, op_value = Some (Vec3 5 0 0)\<rparr>]
   \<and> map_option xform_ops
     (fst (setup_stereo_baseline
            (run_calls
               [Define left_path ''Camera'',
                AddXformOp left_path TypeTranslate (Vec3 1 0 0),
                AddXformOp left_path TypeTranslate (Vec3 5 0 0),
                Define right_path ''Camera'',
                AddXformOp right_path TypeTranslate (Vec3 7 0 0)] Map.empty)
            0.12) right_path)
   = Some [\<lparr>op_type = TypeTranslate, op_value = Some (Vec3 0.06 0 0)\<rparr>]"
  using setup_cameras [OF two_translates_scene, of "0.12"] by simp

text \<open>
  C4 (amended). The baseline-offset computation checks nothing: for every baseline,
  negative ones included, it gives the offsets (-baseline/2, +baseline/2), never clamped,
  and \<open>setup_stereo_baseline\<close> writes them to the cameras and reports the baseline as set.
  A baseline of 0 gives two coincident offsets.
\<close>

theorem stereo_offsets_unchecked:
  "stereo_offsets b = (Vec3 (- (b / 2)) 0 0, Vec3 (b / 2) 0 0)
   \<and> stereo_offsets 0 = (Vec3 0 0 0, Vec3 0 0 0)
   \<and> (s left_path \<noteq> None \<and> s right_path \<noteq> None \<longrightarrow>
        local_pos (fst (setup_stereo_baseline s b)) left_path = Some (fst (stereo_offsets b))
        \<and> local_pos (fst (setup_stereo_baseline s b)) right_path = Some (snd (stereo_offsets b))
        \<and> hd (snd (setup_stereo_baseline s b)) = Set_stereo_baseline_mm (b * 1000))"
proof -
  have o: "stereo_offsets b = (Vec3 (- (b / 2)) 0 0, Vec3 (b / 2) 0 0)" for b
    by (simp add: stereo_offsets_def Let_def)
  show ?thesis
    using setup_local_pos [of s b] setup_printed [of s b] o [of b] o [of 0] by simp
qed

text \<open>The theorem at the built scene with baseline 0: both cameras at the rig origin.\<close>

theorem stereo_offsets_unchecked_witness:
  "build_scene left_path \<noteq> None \<and> build_scene right_path \<noteq> None
   \<and> stereo_offsets 0 = (Vec3 0 0 0, Vec3 0 0 0)
   \<and> local_pos (fst (setup_stereo_baseline build_scene 0)) left_path = Some (Vec3 0 0 0)
   \<and> local_pos (fst (setup_stereo_baseline build_scene 0)) right_path = Some (Vec3 0 0 0)
   \<and> hd (snd (setup_stereo_baseline build_scene 0)) = Set_stereo_baseline_mm 0"
  using stereo_offsets_unchecked [of 0 build_scene] build_scene_cameras by simp

text \<open>
  C4 as stated fails: with the baseline -0.12 nothing is raised; the left camera of the
  built scene is moved to +0.06, the right one to -0.06, and the script prints that the
  baseline was set to -120 mm.
\<close>

theorem negative_baseline_counterexample:
  "stereo_offsets (- 0.12) = (Vec3 0.06 0 0, Vec3 (- 0.06) 0 0)
   \<and> local_pos (fst (setup_stereo_baseline build_scene (- 0.12))) left_path = Some (Vec3 0.06 0 0)
   \<and> local_pos (fst (setup_stereo_baseline build_scene (- 0.12))) right_path
       = Some (Vec3 (- 0.06) 0 0)
   \<and> snd (setup_stereo_baseline build_scene (- 0.12)) =
       [Set_stereo_baseline_mm (- 120), Rig_scale,
        Left_local_pos (Some (Vec3 0.06 0 0)), Right_local_pos (Some (Vec3 (- 0.06) 0 0)),
        Pantograph_world_pos]"
  using setup_local_pos [OF build_scene_cameras, of "- 0.12"]
    setup_printed [OF build_scene_cameras, of "- 0.12"] build_scene_labelled(1)
  by (simp add: stereo_offsets_def Let_def)

text \<open>
  C5. For every baseline b \<ge> 0 the offsets are (-b/2, 0, 0) and (+b/2, 0, 0): they sum to
  0 along the baseline axis and the right one minus the left one is b. The scene builder
  places its two cameras at these offsets for \<open>BASELINE_M\<close>.
\<close>

theorem stereo_offsets_symmetric:
  assumes "0 \<le> b"
  shows "stereo_offsets b = (Vec3 (- (b / 2)) 0 0, Vec3 (b / 2) 0 0)
       \<and> vx (fst (stereo_offsets b)) + vx (snd (stereo_offsets b)) = 0
       \<and> vx (snd (stereo_offsets b)) - vx (fst (stereo_offsets b)) = b
       \<and> local_pos build_scene left_path = Some (fst (stereo_offsets BASELINE_M))
       \<and> local_pos build_scene right_path = Some (snd (stereo_offsets BASELINE_M))"
  by (simp add: stereo_offsets_def Let_def local_pos_def build_scene_left build_scene_right
      BASELINE_M_def)

text \<open>The theorem at the baseline 0.12.\<close>

theorem stereo_offsets_symmetric_witness:
  "(0::real) \<le> 0.12
   \<and> stereo_offsets 0.12 = (Vec3 (- 0.06) 0 0, Vec3 0.06 0 0)
   \<and> vx (fst (stereo_offsets 0.12)) + vx (snd (stereo_offsets 0.12)) = 0
   \<and> vx (snd (stereo_offsets 0.12)) - vx (fst (stereo_offsets 0.12)) = 0.12"
  using stereo_offsets_symmetric [of "0.12"] by simp



text \<open>
  C7. For a distance greater than 0 the expected disparity is
  (focal length * baseline) / distance, and doubling the distance halves it; so the
  disparity the scene builder prints for 2 m is half the one it prints for 1 m.
\<close>

theorem disparity_halves:
  assumes "0 < d"
  shows "disparity_px f b d = Inr ((f * b) / d)
       \<and> disparity_px f b (2 * d) = Inr ((f * b) / d / 2)
       \<and> d_near = disparity_px fx_px BASELINE_M 1
       \<and> d_far = disparity_px fx_px BASELINE_M 2
       \<and> d_near = Inr (350 / 3)
       \<and> d_far = Inr (350 / 3 / 2)"
  using assms
  by (simp add: disparity_px_def d_near_def d_far_def fx_px_def BASELINE_M_def IMAGE_WIDTH_def)

text \<open>The theorem at focal length 973.1 px, baseline 0.12 m and distance 1 m.\<close>

theorem disparity_halves_witness:
  "(0::real) < 1
   \<and> disparity_px 973.1 0.12 1 = Inr 116.772
   \<and> disparity_px 973.1 0.12 2 = Inr 58.386"
  using disparity_halves [of 1 "973.1" "0.12"] by simp

text \<open>
  C8. In the capture script a path that does not resolve is fatal where the prim is
  required: the script raises when the stage did not load, and \<open>set_semantic_label\<close>
  raises when its prim is invalid, which ends the script before any capture step. It is
  not fatal in \<open>setup_stereo_baseline\<close>: when either camera prim is missing the function
  prints a warning, leaves the stage as it was and returns.
\<close>

theorem missing_prims:
  "open_stage None = Inl (RuntimeError ''Failed to open stage'')
   \<and> capture_script world_pos None = ([], Inl (RuntimeError ''Failed to open stage''))
   \<and> (stage p = None \<longrightarrow>
        set_semantic_label stage p label = Inl (RuntimeError (''Missing prim at '' @ p)))
   \<and> (stage pantograph_path = None \<longrightarrow>
        snd (capture_script world_pos (Some stage))
          = Inl (RuntimeError (''Missing prim at '' @ pantograph_path))
        \<and> Orchestrator_step \<notin> set (fst (capture_script world_pos (Some stage))))
   \<and> (stage left_path = None \<or> stage right_path = None \<longrightarrow>
        setup_stereo_baseline stage b = (stage, [Warning_no_cameras]))"
proof -
  have a: "open_stage None = Inl (RuntimeError ''Failed to open stage'')"
    by (simp add: open_stage_def)
  have b: "capture_script world_pos None = ([], Inl (RuntimeError ''Failed to open stage''))"
    by (simp add: capture_script_def prepare_def a)
  have c: "set_semantic_label stage p label = Inl (RuntimeError (''Missing prim at '' @ p))"
    if "stage p = None"
    using that by (simp add: set_semantic_label_def)
  have d: "snd (capture_script world_pos (Some stage))
          = Inl (RuntimeError (''Missing prim at '' @ pantograph_path))
        \<and> Orchestrator_step \<notin> set (fst (capture_script world_pos (Some stage)))"
    if "stage pantograph_path = None"
  proof -
    obtain s1 ms where s1: "setup_stereo_baseline stage 0.12 = (s1, ms)"
      by (cases "setup_stereo_baseline stage 0.12")
    have "s1 pantograph_path = None"
      using setup_dom [of stage "0.12" pantograph_path] s1 that by simp
    then have "prepare (Some stage) =
       (Makedirs # map Print ms @ [New_layer],
        Inl (RuntimeError (''Missing prim at '' @ pantograph_path)))"
      unfolding prepare_Some s1 by (simp add: set_semantic_label_def)
    then show ?thesis
      by (auto simp: capture_script_def)
  qed
  have e: "setup_stereo_baseline stage b = (stage, [Warning_no_cameras])"
    if "stage left_path = None \<or> stage right_path = None"
    using that by (auto simp: setup_stereo_baseline_def split: option.splits)
  from a b c d e show ?thesis by blast
qed

text \<open>The theorem at a stage that holds the left camera only.\<close>

theorem missing_prims_witness:
  "Define left_path ''Camera'' Map.empty pantograph_path = None
   \<and> Define left_path ''Camera'' Map.empty right_path = None
   \<and> set_semantic_label (Define left_path ''Camera'' Map.empty) pantograph_path ''pantograph''
       = Inl (RuntimeError ''Missing prim at /World/Pantograph'')
   \<and> snd (capture_script nominal_rig_pos (Some (Define left_path ''Camera'' Map.empty)))
       = Inl (RuntimeError ''Missing prim at /World/Pantograph'')
   \<and> Orchestrator_step
       \<notin> set (fst (capture_script nominal_rig_pos (Some (Define left_path ''Camera'' Map.empty))))
   \<and> setup_stereo_baseline (Define left_path ''Camera'' Map.empty) 0.12
       = (Define left_path ''Camera'' Map.empty, [Warning_no_cameras])"
proof -
  have v: "Define left_path ''Camera'' Map.empty pantograph_path = None"
    "Define left_path ''Camera'' Map.empty right_path = None"
    by (simp_all add: Define_def path_defs)
  have m: "''Missing prim at '' @ pantograph_path = ''Missing prim at /World/Pantograph''"
    by (simp add: pantograph_path_def)
  from missing_prims [of nominal_rig_pos "Define left_path ''Camera'' Map.empty"
      pantograph_path "''pantograph''" "0.12"] v
  show ?thesis unfolding m by blast
qed

text \<open>
  C9. When the script runs to its end, its session events are, in this order: the writer
  obtained, initialised and attached, once each; then \<open>NUM_FRAMES\<close> = 30 times a capture
  step followed by an application update; then 5 idle updates; then the close. There are
  exactly 30 capture steps in the whole run, none after the idle updates begin.
\<close>

theorem capture_lifecycle:
  assumes "\<not> isl (snd (capture_script world_pos loaded))"
  shows "filter is_session_event (fst (capture_script world_pos loaded)) =
           [Writer_get, Writer_initialize, Writer_attach]
           @ concat (replicate 30 [Orchestrator_step, App_update])
           @ replicate 5 App_update
           @ [App_close]
       \<and> count_list (fst (capture_script world_pos loaded)) Orchestrator_step = NUM_FRAMES
       \<and> NUM_FRAMES = 30"
proof -
  note s = capture_script_session [OF assms]
  have "count_list (fst (capture_script world_pos loaded)) Orchestrator_step
      = count_list (filter is_session_event (fst (capture_script world_pos loaded)))
          Orchestrator_step"
    by (simp add: count_session)
  also have "\<dots> = NUM_FRAMES"
    unfolding s by (rule count_step)
  finally show ?thesis
    using s by (simp add: NUM_FRAMES_def)
qed

text \<open>The theorem at the scene the scene builder writes.\<close>

theorem capture_lifecycle_witness:
  "\<not> isl (snd (capture_script nominal_rig_pos (Some build_scene)))
   \<and> filter is_session_event (fst (capture_script nominal_rig_pos (Some build_scene))) =
           [Writer_get, Writer_initialize, Writer_attach]
           @ concat (replicate 30 [Orchestrator_step, App_update])
           @ replicate 5 App_update
           @ [App_close]
   \<and> count_list (fst (capture_script nominal_rig_pos (Some build_scene))) Orchestrator_step = 30"
proof -
  have ok: "\<not> isl (snd (capture_script nominal_rig_pos (Some build_scene)))"
    by (rule capture_script_ok) (rule build_scene_labelled)+
  from capture_lifecycle [OF ok] ok show ?thesis by (simp only:) simp
qed

text \<open>
  C10. \<open>setup_stereo_baseline\<close> is idempotent: a second call with the same baseline finds,
  in each camera, the translate op the first call wrote (the first translate op of the op
  order), writes the same value to it and appends nothing, so the stage and the printed
  lines after two calls are those after one call.
\<close>

theorem setup_stereo_baseline_idempotent:
  "setup_stereo_baseline (fst (setup_stereo_baseline s b)) b = setup_stereo_baseline s b"
proof (cases "s left_path")
  case None
  then show ?thesis by (simp add: setup_stereo_baseline_def)
next
  case (Some lp)
  note lv = this
  show ?thesis
  proof (cases "s right_path")
    case None
    then show ?thesis using lv by (simp add: setup_stereo_baseline_def)
  next
    case (Some rp)
    obtain lo li where l: "get_or_create_translate (xform_ops lp) = (lo, li)"
      by (cases "get_or_create_translate (xform_ops lp)")
    obtain ro ri where r: "get_or_create_translate (xform_ops rp) = (ro, ri)"
      by (cases "get_or_create_translate (xform_ops rp)")
    note su = setup_valid [OF lv Some l r]
    let ?lv = "Vec3 (- (b / 2)) 0 0" and ?rv = "Vec3 (b / 2) 0 0"
    let ?lp' = "lp\<lparr>xform_ops := op_set lo li ?lv\<rparr>"
    let ?rp' = "rp\<lparr>xform_ops := op_set ro ri ?rv\<rparr>"
    let ?s' = "s(left_path \<mapsto> ?lp', right_path \<mapsto> ?rp')"
    have pl: "pantograph_path \<noteq> left_path" "pantograph_path \<noteq> right_path"
      by (simp_all add: path_defs)
    have v': "?s' left_path = Some ?lp'" "?s' right_path = Some ?rp'"
      using left_right_distinct by simp_all
    have l': "get_or_create_translate (xform_ops ?lp') = (op_set lo li ?lv, li)"
      using get_or_create_set(4) [OF l] by simp
    have r': "get_or_create_translate (xform_ops ?rp') = (op_set ro ri ?rv, ri)"
      using get_or_create_set(4) [OF r] by simp
    have "setup_stereo_baseline ?s' b = setup_stereo_baseline s b"
      unfolding setup_valid [OF v' l' r'] su
      using get_or_create_set(5) [OF l] get_or_create_set(5) [OF r] pl left_right_distinct
      by (simp add: fun_upd_twist)
    then show ?thesis by (simp add: su)
  qed
qed

end
